theory Spec2Isabelle
  imports Main "HOL-Library.AList" "HOL-Library.Multiset"
begin

section \<open>Data model\<close>

text \<open>
  An exception is represented by its message text; a call that may raise returns
  \<open>exc + 'a\<close>, with \<open>Inl\<close> for the raised exception.
\<close>

type_synonym exc = string

text \<open>
  Modelled from the spec: the classes \<open>Measurement\<close> and \<open>StationData\<close> (module
  \<open>stations\<close>) are imported by the feeders and their declarations are absent. The
  feeders read the attributes \<open>public\<close> (the station key, tested for truth and used as the
  grouping key), \<open>model\<close>, \<open>geo_lat\<close>, \<open>geo_lon\<close> and call
  \<open>measurement_check()\<close>, whose result is indexed by \<open>"timestamp"\<close>. The spec's data
  model lists a model identifier, a position, a timestamp, the \<open>public\<close> attribute and a reading
  value. Coordinates are kept as the text that \<open>str.format\<close> renders for them; the reading
  is an integer.
\<close>

record measurement =
  public :: string
  model :: int
  geo_lat :: string
  geo_lon :: string
  timestamp :: int
  reading :: int

record station_data =
  measurement :: measurement

text \<open>The dict that \<open>measurement_check()\<close> returns: its \<open>"timestamp"\<close> entry and the reading.\<close>

record meas_record =
  r_timestamp :: int
  r_value :: int

text \<open>
  Modelled from the spec: \<open>Measurement.measurement_check\<close> is absent from the sources; it
  yields the measurement record of one reading.
\<close>

definition measurement_check :: "measurement \<Rightarrow> meas_record" where
  "measurement_check m = \<lparr>r_timestamp = timestamp m, r_value = reading m\<rparr>"

text \<open>One station group of the payload: the dict with keys \<open>"model"\<close>, \<open>"geo"\<close>, \<open>"measurements"\<close>.\<close>

record group =
  g_model :: int
  g_geo :: string
  g_measurements :: "meas_record list"

text \<open>
  A Python dict keeps its keys in insertion order; it is an association list with distinct
  keys. \<open>AList.update\<close> is item assignment (\<open>d[k] = v\<close>: in place when the key is present,
  appended otherwise) and \<open>AList.map_entry\<close> is mutation of the value stored under a key.
\<close>

type_synonym payload = "(string \<times> group) list"

text \<open>Python truthiness of a string.\<close>

definition truthy :: "string \<Rightarrow> bool" where
  "truthy s = (s \<noteq> [])"

section \<open>JSON encoding (\<open>json.dumps\<close> with its default arguments)\<close>

datatype json = JInt int | JStr string | JList "json list" | JDict "(string \<times> json) list"

fun nat_digits :: "nat \<Rightarrow> string" where
  "nat_digits n =
     (if n < 10 then [''0123456789'' ! n]
      else nat_digits (n div 10) @ [''0123456789'' ! (n mod 10)])"

declare nat_digits.simps [simp del]

definition str_int :: "int \<Rightarrow> string" where
  "str_int i = (if i < 0 then CHR ''-'' # nat_digits (nat (- i)) else nat_digits (nat i))"

definition hex2 :: "nat \<Rightarrow> string" where
  "hex2 n = [''0123456789abcdef'' ! (n div 16), ''0123456789abcdef'' ! (n mod 16)]"

text \<open>
  \<open>ensure_ascii\<close> escaping: the quote and the backslash, the short escapes, and
  \<open>\u00XX\<close> for every other character outside the printable ASCII range.
\<close>

definition esc_char :: "char \<Rightarrow> string" where
  "esc_char c =
     (if c = CHR 0x22 then [CHR 0x5C, CHR 0x22]
      else if c = CHR 0x5C then [CHR 0x5C, CHR 0x5C]
      else if c = CHR 0x0A then [CHR 0x5C, CHR ''n'']
      else if c = CHR 0x0D then [CHR 0x5C, CHR ''r'']
      else if c = CHR 0x09 then [CHR 0x5C, CHR ''t'']
      else if c = CHR 0x08 then [CHR 0x5C, CHR ''b'']
      else if c = CHR 0x0C then [CHR 0x5C, CHR ''f'']
      else if (of_char c :: nat) < 32 \<or> 126 < (of_char c :: nat)
        then [CHR 0x5C, CHR ''u'', CHR ''0'', CHR ''0''] @ hex2 (of_char c)
      else [c])"

definition json_str :: "string \<Rightarrow> string" where
  "json_str s = [CHR 0x22] @ concat (map esc_char s) @ [CHR 0x22]"

text \<open>\<open>sep.join(parts)\<close>\<close>

fun join :: "string \<Rightarrow> string list \<Rightarrow> string" where
  "join sep [] = []"
| "join sep [p] = p"
| "join sep (p # q # ps) = p @ sep @ join sep (q # ps)"

fun json_dumps :: "json \<Rightarrow> string" where
  "json_dumps (JInt i) = str_int i"
| "json_dumps (JStr s) = json_str s"
| "json_dumps (JList xs) = ''['' @ join '', '' (map json_dumps xs) @ '']''"
| "json_dumps (JDict kvs) =
     ''{'' @ join '', '' (map (\<lambda>kv. json_str (fst kv) @ '': '' @ json_dumps (snd kv)) kvs) @ ''}''"

definition meas_json :: "meas_record \<Rightarrow> json" where
  "meas_json r = JDict [(''timestamp'', JInt (r_timestamp r)), (''value'', JInt (r_value r))]"

definition group_json :: "group \<Rightarrow> json" where
  "group_json g =
     JDict [(''model'', JInt (g_model g)), (''geo'', JStr (g_geo g)),
            (''measurements'', JList (map meas_json (g_measurements g)))]"

definition payload_json :: "payload \<Rightarrow> json" where
  "payload_json p = JDict (map (\<lambda>kg. (fst kg, group_json (snd kg))) p)"

section \<open>Snapshot building: \<open>_sort_payload\<close> and the grouping loop of \<open>_get_multihash\<close>\<close>

text \<open>
  \<open>sorted(v["measurements"], key=lambda x: x["timestamp"])\<close> is a stable sort, as
  \<open>sort_key\<close> is.
\<close>

definition sort_group :: "group \<Rightarrow> group" where
  "sort_group v =
     \<lparr>g_model = g_model v, g_geo = g_geo v,
      g_measurements = sort_key r_timestamp (g_measurements v)\<rparr>"

definition sort_payload :: "payload \<Rightarrow> payload" where
  "sort_payload data = foldl (\<lambda>ordered kv. AList.update (fst kv) (sort_group (snd kv)) ordered) [] data"

text \<open>\<open>"{},{}".format(m.geo_lat, m.geo_lon)\<close>\<close>

definition geo_of :: "measurement \<Rightarrow> string" where
  "geo_of m = geo_lat m @ '','' @ geo_lon m"

text \<open>One pass of the loop \<open>for m in buf\<close> (lines 33-40).\<close>

definition add_to_payload :: "payload \<Rightarrow> measurement \<Rightarrow> payload" where
  "add_to_payload payload m =
     (if map_of payload (public m) \<noteq> None
      then AList.map_entry (public m)
             (\<lambda>g. g\<lparr>g_measurements := g_measurements g @ [measurement_check m]\<rparr>) payload
      else AList.update (public m)
             \<lparr>g_model = model m, g_geo = geo_of m, g_measurements = [measurement_check m]\<rparr>
             payload)"

text \<open>
  The grouping loop over the buffer. Its argument is the sequence in which iterating the
  Python set yields the measurements.
\<close>

definition build_payload :: "measurement list \<Rightarrow> payload" where
  "build_payload buf = foldl add_to_payload [] buf"

text \<open>The text written to the temporary file and stored in the data base: \<open>json.dumps(payload)\<close>.\<close>

definition snapshot_bytes :: "measurement list \<Rightarrow> string" where
  "snapshot_bytes buf = json_dumps (payload_json (sort_payload (build_payload buf)))"

section \<open>Configuration, data base, and the record of external calls\<close>

text \<open>
  The configuration entries that the feeders read; an absent or \<open>None\<close> entry is the empty
  string, which is false in a condition as \<open>None\<close> is.
\<close>

record config =
  datalog_enable :: bool
  datalog_dump_interval :: int
  datalog_temporal_username :: string
  datalog_temporal_password :: string
  datalog_pinata_api :: string
  datalog_pinata_secret :: string
  datalog_suri :: string
  robonomics_ipfs_provider :: string
  frontier_enable :: bool

text \<open>One row of the data base table: status, hash, time, payload.\<close>

record row =
  row_status :: string
  row_hash :: string
  row_time :: int
  row_payload :: string

datatype level = DEBUG | INFO | WARNING

text \<open>
  Every call that leaves the process is recorded, in order, when it is attempted. A log
  entry holds the literal part of the message followed by the interpolated text when that
  is a string (an exception message, a hash, a file name); the repr of a measurement, of the
  buffer or of the payload is left out.
\<close>

datatype event =
    Log level string
  | WriteFile string string
  | IpfsAdd string string
  | DbCreateTable
  | DbAddData string string int string
  | DbUpdateStatus string string
  | TemporalLogin string string
  | TemporalAdd string string
  | PinataPin string
  | PinataList
  | InterfaceNew string
  | RecordDatalog string
  | AccountNew string
  | DatalogRecord string

record world =
  db :: "row list"
  trace :: "event list"

definition emit :: "event \<Rightarrow> world \<Rightarrow> world" where
  "emit e w = w\<lparr>trace := trace w @ [e]\<rparr>"

text \<open>
  Modelled from the spec: the class \<open>DataBase\<close> (module \<open>utils.database\<close>) is absent from
  the sources. The spec gives the Submission Ledger Store the operations
  \<open>create_table()\<close>, \<open>add_record(status, content_id, created_at, payload)\<close>, which
  appends a row, and \<open>update_status(status, content_id)\<close>, which sets the status of the
  rows with that content identifier. They are taken to succeed.
\<close>

definition db_create_table :: "world \<Rightarrow> world" where
  "db_create_table w = emit DbCreateTable w"

definition db_add_data :: "string \<Rightarrow> string \<Rightarrow> int \<Rightarrow> string \<Rightarrow> world \<Rightarrow> world" where
  "db_add_data st h t p w =
     (emit (DbAddData st h t p) w)
       \<lparr>db := db w @ [\<lparr>row_status = st, row_hash = h, row_time = t, row_payload = p\<rparr>]\<rparr>"

definition db_update_status :: "string \<Rightarrow> string \<Rightarrow> world \<Rightarrow> world" where
  "db_update_status st h w =
     (emit (DbUpdateStatus st h) w)
       \<lparr>db := map (\<lambda>r. if row_hash r = h then r\<lparr>row_status := st\<rparr> else r) (db w)\<rparr>"

text \<open>
  The outcomes of the external calls of one \<open>feed\<close>: the clock readings
  (\<open>time.time()\<close> at lines 101, 53 and 141, in one fixed unit), the order in which the
  buffer set is iterated, the name of the temporary file, and what each remote service
  answers. \<open>ipfs_add\<close> is \<open>ipfshttpclient.connect\<close>, \<open>client.add\<close> and
  \<open>response["Hash"]\<close> on the file's contents; \<open>temporal_login\<close> is the first
  \<open>requests.post\<close> with \<open>.json()\<close>, its value the \<open>'token'\<close> entry when there is one;
  \<open>temporal_add\<close> is the status code of the second \<open>requests.post\<close>.
\<close>

record env =
  clock_feed :: int
  clock_add :: int
  clock_datalog :: int
  set_order :: "measurement list \<Rightarrow> measurement list"
  temp_name :: string
  ipfs_add :: "string \<Rightarrow> exc + string"
  temporal_login :: "exc + string option"
  temporal_add :: "exc + int"
  pinata_pin :: "exc + unit"
  pinata_list :: "exc + string"
  interface_new :: "exc + unit"
  record_datalog :: "string \<Rightarrow> exc + string"

section \<open>\<open>_get_multihash\<close>, the pin targets, \<open>to_datalog\<close>\<close>

definition get_multihash :: "env \<Rightarrow> measurement list \<Rightarrow> world \<Rightarrow> string \<Rightarrow> (exc + string \<times> string) \<times> world" where
  "get_multihash env buf w endpoint =
     (let payload = build_payload (set_order env buf);
          w1 = emit (Log DEBUG ''Payload before sorting: '') w;
          payload = sort_payload payload;
          w2 = emit (Log DEBUG ''Payload sorted: '') w1;
          w3 = emit (Log DEBUG (''Created temp file: '' @ temp_name env)) w2;
          w4 = emit (WriteFile (temp_name env) (json_dumps (payload_json payload))) w3;
          w5 = emit (IpfsAdd endpoint (temp_name env)) w4
      in case ipfs_add env (json_dumps (payload_json payload)) of
           Inl e \<Rightarrow> (Inl e, w5)
         | Inr h \<Rightarrow>
             (Inr (h, temp_name env),
              db_add_data ''not sent'' h (clock_add env) (json_dumps (payload_json payload)) w5))"

definition pin_to_pinata :: "env \<Rightarrow> string \<Rightarrow> config \<Rightarrow> world \<Rightarrow> (exc + unit) \<times> world" where
  "pin_to_pinata env file_path cfg w =
     (if truthy (datalog_pinata_secret cfg) then
        (let w1 = emit (Log INFO ''Pinning file to Pinata'') w;
             w2 = emit (PinataPin file_path) w1
         in case pinata_pin env of
              Inl e \<Rightarrow>
                (Inr (), emit (Log WARNING (''Failed while pining file to Pinata. Error: '' @ e)) w2)
            | Inr u \<Rightarrow>
                (let w3 = emit PinataList w2
                 in case pinata_list env of
                      Inl e \<Rightarrow>
                        (Inr (),
                         emit (Log WARNING (''Failed while pining file to Pinata. Error: '' @ e)) w3)
                    | Inr h \<Rightarrow>
                        (Inr (), emit (Log INFO (''File sent to pinata. Hash is '' @ h)) w3)))
      else (Inr (), w))"

text \<open>The feeder object: \<open>self.last_time\<close>, \<open>self.buffer\<close>, \<open>self.interval\<close>,
  \<open>self.ipfs_endpoint\<close>, \<open>self.config\<close>. The buffer set is a list without repetitions.\<close>

record feeder =
  last_time :: int
  buffer :: "measurement list"
  interval :: int
  ipfs_endpoint :: string
  config :: config

definition set_add :: "'a list \<Rightarrow> 'a \<Rightarrow> 'a list" where
  "set_add s x = (if x \<in> set s then s else s @ [x])"

definition DatalogFeeder_init :: "config \<Rightarrow> int \<Rightarrow> world \<Rightarrow> feeder \<times> world" where
  "DatalogFeeder_init cfg now w =
     (\<lparr>last_time = now, buffer = [], interval = datalog_dump_interval cfg,
       ipfs_endpoint =
         (if truthy (robonomics_ipfs_provider cfg) then robonomics_ipfs_provider cfg
          else ''/ip4/127.0.0.1/tcp/5001/http''),
       config = cfg\<rparr>,
      db_create_table w)"

definition pin_to_temporal :: "env \<Rightarrow> feeder \<Rightarrow> string \<Rightarrow> world \<Rightarrow> (exc + unit) \<times> world" where
  "pin_to_temporal env self file_path w =
     (let username = datalog_temporal_username (config self);
          password = datalog_temporal_password (config self)
      in if truthy username \<and> truthy password then
           (let w1 = emit (TemporalLogin username password) w
            in case temporal_login env of
                 Inl e \<Rightarrow> (Inl e, w1)
               | Inr None \<Rightarrow> (Inl ''KeyError: token'', w1)
               | Inr (Some token) \<Rightarrow>
                   (let w2 = emit (TemporalAdd file_path token) w1
                    in case temporal_add env of
                         Inl e \<Rightarrow> (Inl e, w2)
                       | Inr code \<Rightarrow>
                           (Inr (),
                            if code = 200 then emit (Log INFO ''File pinned to Temporal Cloud'') w2
                            else w2)))
         else (Inr (), w))"

definition to_datalog :: "env \<Rightarrow> feeder \<Rightarrow> string \<Rightarrow> world \<Rightarrow> (exc + unit) \<times> feeder \<times> world" where
  "to_datalog env self ipfs_hash w =
     (let w1 = emit (Log INFO ipfs_hash) w;
          self1 = self\<lparr>last_time := clock_datalog env\<rparr>;
          self2 = self1\<lparr>buffer := []\<rparr>;
          w2 = emit (InterfaceNew (datalog_suri (config self2))) w1
      in case interface_new env of
           Inl e \<Rightarrow> (Inl e, self2, w2)
         | Inr u \<Rightarrow>
             (let w3 = emit (RecordDatalog ipfs_hash) w2
              in case record_datalog env ipfs_hash of
                   Inl e \<Rightarrow>
                     (Inr (), self2,
                      emit (Log WARNING
                        (''Something went wrong during extrinsic submission to Robonomics: '' @ e)) w3)
                 | Inr receipt \<Rightarrow>
                     (Inr (), self2,
                      db_update_status ''sent'' ipfs_hash
                        (emit (Log INFO
                          (''Ipfs hash sent to Robonomics Parachain and included in block '' @ receipt))
                          w3))))"

section \<open>\<open>DatalogFeeder.feed\<close>\<close>

text \<open>The condition of line 97; \<open>PING_MODEL\<close> is imported from \<open>drivers.ping\<close> and is a parameter here.\<close>

definition keep :: "int \<Rightarrow> measurement \<Rightarrow> bool" where
  "keep PING_MODEL m = (truthy (public m) \<and> model m \<noteq> PING_MODEL)"

text \<open>The loop of lines 96-99 on the buffer and the trace.\<close>

definition feed_step :: "int \<Rightarrow> measurement list \<times> world \<Rightarrow> station_data \<Rightarrow> measurement list \<times> world" where
  "feed_step PING_MODEL bw d =
     (if keep PING_MODEL (measurement d)
      then (set_add (fst bw) (measurement d), emit (Log DEBUG ''Adding data to buffer: '') (snd bw))
      else bw)"

definition feed_loop :: "int \<Rightarrow> measurement list \<Rightarrow> world \<Rightarrow> station_data list \<Rightarrow> measurement list \<times> world" where
  "feed_loop PING_MODEL buf w data = foldl (feed_step PING_MODEL) (buf, w) data"

definition feed :: "env \<Rightarrow> int \<Rightarrow> feeder \<Rightarrow> world \<Rightarrow> station_data list \<Rightarrow> (exc + unit) \<times> feeder \<times> world" where
  "feed env PING_MODEL self w data =
     (if datalog_enable (config self) then
        (let w1 = emit (Log INFO ''DatalogFeeder:'') w;
             bw = feed_loop PING_MODEL (buffer self) w1 data;
             self1 = self\<lparr>buffer := fst bw\<rparr>;
             w2 = snd bw
         in if clock_feed env - last_time self1 \<ge> interval self1 then
              (if buffer self1 \<noteq> [] then
                 (let w3 = emit (Log DEBUG ''About to publish collected data...'') w2;
                      w4 = emit (Log DEBUG ''Buffer is '') w3
                  in case get_multihash env (buffer self1) w4 (ipfs_endpoint self1) of
                       (Inl e, w5) \<Rightarrow> (Inl e, self1, w5)
                     | (Inr (ipfs_hash, file_path), w5) \<Rightarrow>
                         (case pin_to_temporal env self1 file_path w5 of
                            (Inl e, w6) \<Rightarrow> (Inl e, self1, w6)
                          | (Inr u, w6) \<Rightarrow>
                              (case pin_to_pinata env file_path (config self1) w6 of
                                 (Inl e, w7) \<Rightarrow> (Inl e, self1, w7)
                               | (Inr u', w7) \<Rightarrow> to_datalog env self1 ipfs_hash w7)))
               else (Inr (), self1, emit (Log INFO ''Nothing to publish'') w2))
            else (Inr (), self1, emit (Log INFO ''Still collecting measurements...'') w2))
      else (Inr (), self, w))"


section \<open>\<open>FrontierFeeder.feed\<close>\<close>

text \<open>
  The outcomes of the external calls of \<open>FrontierFeeder.feed\<close>: constructing \<open>Account\<close>
  and \<open>Datalog\<close> (lines 19-20, outside the handler), evaluating the text
  \<open>f"{d.measurement}"\<close> of an item (reading the attribute and formatting it, inside the
  handler), and the answer of \<open>datalog.record\<close> for the item at position \<open>i\<close>.
\<close>

record fenv =
  account_new :: "exc + unit"
  str_measurement :: "station_data \<Rightarrow> exc + string"
  datalog_record :: "nat \<Rightarrow> string \<Rightarrow> exc + string"

text \<open>
  The loop of lines 21-30. The whole of line 23 is inside the \<open>try\<close>: an exception of the
  f-string is handled like one of \<open>datalog.record\<close>, and then no record call is made for
  the item.
\<close>

fun frontier_loop :: "fenv \<Rightarrow> nat \<Rightarrow> world \<Rightarrow> station_data list \<Rightarrow> (exc + unit) \<times> world" where
  "frontier_loop env i w [] = (Inr (), w)"
| "frontier_loop env i w (d # ds) =
     (case str_measurement env d of
        Inl e \<Rightarrow>
          frontier_loop env (Suc i)
            (emit (Log WARNING
              (''Frontier Datalog: Something went wrong during extrinsic submission to Robonomics: '' @ e))
              w) ds
      | Inr s \<Rightarrow>
          (let w1 = emit (DatalogRecord s) w
           in case datalog_record env i s of
                Inl e \<Rightarrow>
                  frontier_loop env (Suc i)
                    (emit (Log WARNING
                      (''Frontier Datalog: Something went wrong during extrinsic submission to Robonomics: '' @ e))
                      w1) ds
              | Inr receipt \<Rightarrow>
                  frontier_loop env (Suc i)
                    (emit (Log INFO
                      (''Frontier Datalog: Data sent to Robonomics datalog and included in block '' @ receipt))
                      w1) ds))"

definition frontier_feed :: "fenv \<Rightarrow> config \<Rightarrow> world \<Rightarrow> station_data list \<Rightarrow> (exc + unit) \<times> world" where
  "frontier_feed env cfg w data =
     (if frontier_enable cfg then
        (let w1 = emit (AccountNew (datalog_suri cfg)) w
         in case account_new env of
              Inl e \<Rightarrow> (Inl e, w1)
            | Inr u \<Rightarrow> frontier_loop env 0 w1 data)
      else (Inr (), w))"

section \<open>Definitions used in the statements\<close>

text \<open>
  The group that a station key has after the grouping loop, read off the iteration
  sequence: model and position of the first measurement with that key, and the measurement
  records of all of them in iteration order.
\<close>

definition group_of :: "string \<Rightarrow> measurement list \<Rightarrow> group option" where
  "group_of k buf =
     (case filter (\<lambda>m. public m = k) buf of
        [] \<Rightarrow> None
      | m0 # ms \<Rightarrow>
          Some \<lparr>g_model = model m0, g_geo = geo_of m0,
                g_measurements = map measurement_check (m0 # ms)\<rparr>)"

text \<open>Sample measurements: two of station \<open>X\<close> that differ in model and position, one of station \<open>Y\<close>.\<close>

definition ex_x100 :: measurement where
  "ex_x100 = \<lparr>public = ''X'', model = 2, geo_lat = ''1.5'', geo_lon = ''2.5'', timestamp = 100, reading = 7\<rparr>"

definition ex_x50 :: measurement where
  "ex_x50 = \<lparr>public = ''X'', model = 3, geo_lat = ''9.0'', geo_lon = ''8.0'', timestamp = 50, reading = 4\<rparr>"

definition ex_y7 :: measurement where
  "ex_y7 = \<lparr>public = ''Y'', model = 2, geo_lat = ''1.5'', geo_lon = ''2.5'', timestamp = 7, reading = 1\<rparr>"

section \<open>Events and sample inputs\<close>

text \<open>Classes of events: pin attempts, ledger calls, the data base insert, the content-store call.\<close>

fun is_pin :: "event \<Rightarrow> bool" where
  "is_pin (TemporalLogin u p) = True"
| "is_pin (TemporalAdd f t) = True"
| "is_pin (PinataPin f) = True"
| "is_pin PinataList = True"
| "is_pin e = False"

fun is_ledger :: "event \<Rightarrow> bool" where
  "is_ledger (InterfaceNew s) = True"
| "is_ledger (RecordDatalog h) = True"
| "is_ledger (AccountNew s) = True"
| "is_ledger (DatalogRecord s) = True"
| "is_ledger e = False"

fun is_db :: "event \<Rightarrow> bool" where
  "is_db DbCreateTable = True"
| "is_db (DbAddData s h t p) = True"
| "is_db (DbUpdateStatus s h) = True"
| "is_db e = False"

fun is_db_add :: "event \<Rightarrow> bool" where
  "is_db_add (DbAddData s h t p) = True"
| "is_db_add e = False"

fun is_store :: "event \<Rightarrow> bool" where
  "is_store (IpfsAdd ep f) = True"
| "is_store e = False"

fun is_warning :: "event \<Rightarrow> bool" where
  "is_warning (Log l s) = (l = WARNING)"
| "is_warning e = False"

fun is_datalog_record :: "event \<Rightarrow> bool" where
  "is_datalog_record (DatalogRecord s) = True"
| "is_datalog_record e = False"

text \<open>
  In a sequence of events, no pin attempt and no ledger call comes before the first data base
  insert.
\<close>

fun record_first :: "event list \<Rightarrow> bool" where
  "record_first [] = True"
| "record_first (e # es) =
     (if is_db_add e then True
      else if is_pin e \<or> is_ledger e then False
      else record_first es)"

text \<open>The events that a call appended to the trace.\<close>

definition new_events :: "world \<Rightarrow> world \<Rightarrow> event list" where
  "new_events w w' = drop (length (trace w)) (trace w')"

text \<open>Sample outcomes, configuration and objects.\<close>

fun is_log :: "event \<Rightarrow> bool" where
  "is_log (Log l s) = True"
| "is_log e = False"

definition ex_env :: env where
  "ex_env =
     \<lparr>clock_feed = 1000, clock_add = 1001, clock_datalog = 1002,
      set_order = (\<lambda>b. b), temp_name = ''/tmp/tmpfile'',
      ipfs_add = (\<lambda>bytes. Inr ''QmHash''),
      temporal_login = Inr (Some ''tok''), temporal_add = Inr 200,
      pinata_pin = Inr (), pinata_list = Inr ''QmHash'',
      interface_new = Inr (), record_datalog = (\<lambda>h. Inr ''0xabc'')\<rparr>"

definition ex_cfg :: config where
  "ex_cfg =
     \<lparr>datalog_enable = True, datalog_dump_interval = 60,
      datalog_temporal_username = ''user'', datalog_temporal_password = ''pw'',
      datalog_pinata_api = ''key'', datalog_pinata_secret = ''secret'',
      datalog_suri = ''//Alice'', robonomics_ipfs_provider = [], frontier_enable = True\<rparr>"

definition ex_world :: world where
  "ex_world = \<lparr>db = [], trace = []\<rparr>"

definition ex_self :: feeder where
  "ex_self = fst (DatalogFeeder_init ex_cfg 0 ex_world)"

text \<open>
  Sample outcomes for \<open>FrontierFeeder.feed\<close>: the text of an item is its station key, and
  cannot be built for station \<open>Y\<close>; the record call of the item at position 1 fails.
\<close>

definition ex_fenv :: fenv where
  "ex_fenv =
     \<lparr>account_new = Inr (),
      str_measurement =
        (\<lambda>d. if public (measurement d) = ''Y'' then Inl ''format error''
             else Inr (public (measurement d))),
      datalog_record = (\<lambda>i s. if i = 1 then Inl ''boom'' else Inr ''0x1'')\<rparr>"

text \<open>The buffer after the loop of lines 96-99: what \<open>feed\<close> hands to \<open>_get_multihash\<close>.\<close>

definition buffered :: "int \<Rightarrow> feeder \<Rightarrow> station_data list \<Rightarrow> measurement list" where
  "buffered P self data = foldl set_add (buffer self) (filter (keep P) (map measurement data))"

text \<open>What \<open>update_status("sent", h)\<close> does to the rows.\<close>

definition mark_sent :: "string \<Rightarrow> row list \<Rightarrow> row list" where
  "mark_sent h rows = map (\<lambda>r. if row_hash r = h then r\<lparr>row_status := ''sent''\<rparr> else r) rows"

text \<open>
  The events of \<open>feed\<close> up to the end of its loop, and up to the content-store call of a
  flush.
\<close>

definition pre_events :: "int \<Rightarrow> station_data list \<Rightarrow> event list" where
  "pre_events P data =
     Log INFO ''DatalogFeeder:'' #
     replicate (length (filter (keep P) (map measurement data))) (Log DEBUG ''Adding data to buffer: '')"

definition publish_events :: "env \<Rightarrow> int \<Rightarrow> feeder \<Rightarrow> station_data list \<Rightarrow> event list" where
  "publish_events env P self data =
     pre_events P data @
     [Log DEBUG ''About to publish collected data...'', Log DEBUG ''Buffer is '',
      Log DEBUG ''Payload before sorting: '', Log DEBUG ''Payload sorted: '',
      Log DEBUG (''Created temp file: '' @ temp_name env),
      WriteFile (temp_name env) (snapshot_bytes (set_order env (buffered P self data))),
      IpfsAdd (ipfs_endpoint self) (temp_name env)]"


text \<open>
  Further sample measurements: \<open>ex_x100\<close> with another reading, and \<open>ex_x50\<close> with the model
  and position of \<open>ex_x100\<close>.
\<close>

definition ex_x100b :: measurement where
  "ex_x100b = ex_x100\<lparr>reading := 9\<rparr>"

definition ex_x50s :: measurement where
  "ex_x50s = ex_x50\<lparr>model := 2, geo_lat := ''1.5'', geo_lon := ''2.5''\<rparr>"


section \<open>The built payload\<close>

lemma update_fresh: "k \<notin> fst ` set al \<Longrightarrow> AList.update k v al = al @ [(k, v)]"
  by (induction al) auto

lemma sort_payload_foldl:
  "distinct (map fst (acc @ data)) \<Longrightarrow>
   foldl (\<lambda>ordered kv. AList.update (fst kv) (sort_group (snd kv)) ordered) acc data =
   acc @ map (\<lambda>kv. (fst kv, sort_group (snd kv))) data"
proof (induction data arbitrary: acc)
  case Nil
  then show ?case by simp
next
  case (Cons kv data)
  have fresh: "fst kv \<notin> fst ` set acc" using Cons.prems by auto
  have d: "distinct (map fst ((acc @ [(fst kv, sort_group (snd kv))]) @ data))"
    using Cons.prems by auto
  show ?case
    using Cons.IH [OF d] by (simp add: update_fresh [OF fresh])
qed

lemma sort_payload_map:
  "distinct (map fst data) \<Longrightarrow> sort_payload data = map (\<lambda>kv. (fst kv, sort_group (snd kv))) data"
  unfolding sort_payload_def using sort_payload_foldl [of "[]" data] by simp

lemma build_payload_snoc: "build_payload (xs @ [x]) = add_to_payload (build_payload xs) x"
  by (simp add: build_payload_def)

lemma distinct_add_to_payload:
  "distinct (map fst p) \<Longrightarrow> distinct (map fst (add_to_payload p m))"
  by (simp add: add_to_payload_def distinct_update distinct_map_entry)

lemma distinct_build_payload: "distinct (map fst (build_payload xs))"
proof (induction xs rule: rev_induct)
  case Nil
  then show ?case by (simp add: build_payload_def)
next
  case (snoc x xs)
  then show ?case by (simp add: build_payload_snoc distinct_add_to_payload)
qed

lemma map_of_add_to_payload:
  "map_of (add_to_payload p m) k =
     (if k = public m then
        (case map_of p k of
           None \<Rightarrow> Some \<lparr>g_model = model m, g_geo = geo_of m, g_measurements = [measurement_check m]\<rparr>
         | Some g \<Rightarrow> Some (g\<lparr>g_measurements := g_measurements g @ [measurement_check m]\<rparr>))
      else map_of p k)"
  by (auto simp: add_to_payload_def map_of_map_entry update_conv' split: option.splits)

lemma map_of_build_payload: "map_of (build_payload buf) k = group_of k buf"
proof (induction buf rule: rev_induct)
  case Nil
  then show ?case by (simp add: build_payload_def group_of_def)
next
  case (snoc x xs)
  show ?case
  proof (cases "k = public x")
    case True
    then show ?thesis
      using snoc
      by (simp add: build_payload_snoc map_of_add_to_payload group_of_def split: list.splits)
  next
    case False
    then show ?thesis
      using snoc by (simp add: build_payload_snoc map_of_add_to_payload group_of_def)
  qed
qed

lemma keys_build_payload: "set (map fst (build_payload buf)) = public ` set buf"
proof -
  have "fst ` set (build_payload buf) = dom (map_of (build_payload buf))"
    by (simp add: dom_map_of_conv_image_fst)
  also have "\<dots> = public ` set buf"
    by (auto simp: dom_def map_of_build_payload group_of_def filter_empty_conv split: list.splits)
  finally show ?thesis by simp
qed

lemma map_of_map_snd:
  "map_of (map (\<lambda>kv. (fst kv, f (snd kv))) xs) k = map_option f (map_of xs k)"
  by (induction xs) auto

lemma map_of_sort_payload_build:
  "map_of (sort_payload (build_payload buf)) k = map_option sort_group (group_of k buf)"
  by (simp add: sort_payload_map distinct_build_payload map_of_map_snd map_of_build_payload)

lemma keys_sort_payload_build:
  "map fst (sort_payload (build_payload buf)) = map fst (build_payload buf)"
  by (simp add: sort_payload_map distinct_build_payload comp_def)

lemma count_key_distinct:
  "distinct (map fst p) \<Longrightarrow> k \<in> fst ` set p \<Longrightarrow> length (filter (\<lambda>kg. fst kg = k) p) = 1"
proof (induction p)
  case Nil
  then show ?case by simp
next
  case (Cons a p)
  show ?case
  proof (cases "fst a = k")
    case True
    then have "k \<notin> fst ` set p" using Cons.prems(1) by auto
    then have "filter (\<lambda>kg. fst kg = k) p = []" by (auto simp: filter_empty_conv)
    with True show ?thesis by simp
  next
    case False
    then show ?thesis using Cons by auto
  qed
qed

lemma ex_payload:
  "sort_payload (build_payload [ex_x100, ex_x50, ex_y7]) =
     [(''X'', \<lparr>g_model = 2, g_geo = ''1.5,2.5'',
              g_measurements = [\<lparr>r_timestamp = 50, r_value = 4\<rparr>, \<lparr>r_timestamp = 100, r_value = 7\<rparr>]\<rparr>),
      (''Y'', \<lparr>g_model = 2, g_geo = ''1.5,2.5'', g_measurements = [\<lparr>r_timestamp = 7, r_value = 1\<rparr>]\<rparr>)]"
  by code_simp

text \<open>
  C9. When measurements of the buffer share a station key, \<open>_get_multihash\<close> puts them in
  one group: the payload has one entry per key, its model and position are those of the
  measurement that the iteration meets first, and the later measurements of that key
  contribute their measurement records only (model and position of theirs are dropped).
  The records of the group are those of all measurements with the key, sorted by timestamp.
\<close>

theorem get_multihash_first_wins:
  "distinct (map fst (sort_payload (build_payload buf))) \<and>
   map_of (sort_payload (build_payload buf)) k =
     (case filter (\<lambda>m. public m = k) buf of
        [] \<Rightarrow> None
      | m0 # ms \<Rightarrow>
          Some \<lparr>g_model = model m0, g_geo = geo_of m0,
                g_measurements = sort_key r_timestamp (map measurement_check (m0 # ms))\<rparr>)"
  by (simp add: keys_sort_payload_build distinct_build_payload map_of_sort_payload_build
      group_of_def sort_group_def split: list.splits)

text \<open>
  C4. In the payload that \<open>_sort_payload\<close> returns for a buffer, the measurement records of
  every station group are in non-decreasing order of timestamp, and the station key of every
  buffered measurement is the key of exactly one group.
\<close>

theorem sort_payload_sorted_unique:
  "(\<forall>kg \<in> set (sort_payload (build_payload buf)).
      sorted (map r_timestamp (g_measurements (snd kg)))) \<and>
   (\<forall>m \<in> set buf.
      length (filter (\<lambda>kg. fst kg = public m) (sort_payload (build_payload buf))) = 1)"
proof (intro conjI ballI)
  fix kg assume "kg \<in> set (sort_payload (build_payload buf))"
  then obtain kv where "kg = (fst kv, sort_group (snd kv))"
    by (auto simp: sort_payload_map distinct_build_payload)
  then show "sorted (map r_timestamp (g_measurements (snd kg)))"
    by (simp add: sort_group_def)
next
  fix m assume m: "m \<in> set buf"
  have d: "distinct (map fst (sort_payload (build_payload buf)))"
    by (simp add: keys_sort_payload_build distinct_build_payload)
  have "public m \<in> set (map fst (sort_payload (build_payload buf)))"
    using m by (simp only: keys_sort_payload_build keys_build_payload) simp
  then have "public m \<in> fst ` set (sort_payload (build_payload buf))" by simp
  from count_key_distinct [OF d this]
  show "length (filter (\<lambda>kg. fst kg = public m) (sort_payload (build_payload buf))) = 1" .
qed

theorem sort_payload_sorted_unique_witness:
  "ex_x50 \<in> set [ex_x100, ex_x50, ex_y7] \<and>
   length (filter (\<lambda>kg. fst kg = ''X'') (sort_payload (build_payload [ex_x100, ex_x50, ex_y7]))) = 1 \<and>
   map (\<lambda>kg. map r_timestamp (g_measurements (snd kg)))
     (sort_payload (build_payload [ex_x100, ex_x50, ex_y7])) = [[50, 100], [7]] \<and>
   sorted [50, 100 :: int]"
  using sort_payload_sorted_unique [of "[ex_x100, ex_x50, ex_y7]"]
  by (simp add: ex_payload)

section \<open>The filter loop and the early call of \<open>feed\<close>\<close>

lemma feed_step_fst:
  "fst (feed_step P bw d) = (if keep P (measurement d) then set_add (fst bw) (measurement d) else fst bw)"
  by (simp add: feed_step_def)

lemma feed_loop_Cons:
  "feed_loop P buf w (d # data) =
     feed_loop P (fst (feed_step P (buf, w) d)) (snd (feed_step P (buf, w) d)) data"
  by (simp add: feed_loop_def)

lemma feed_loop_Nil: "feed_loop P buf w [] = (buf, w)"
  by (simp add: feed_loop_def)

lemma feed_loop_buffer:
  "fst (feed_loop P buf w data) = foldl set_add buf (filter (keep P) (map measurement data))"
  by (induction data arbitrary: buf w) (simp_all add: feed_loop_Nil feed_loop_Cons feed_step_def)

lemma feed_loop_world:
  "snd (feed_loop P buf w data) =
     w\<lparr>trace := trace w @
         replicate (length (filter (keep P) (map measurement data))) (Log DEBUG ''Adding data to buffer: '')\<rparr>"
proof (induction data arbitrary: buf w)
  case Nil
  then show ?case by (simp add: feed_loop_Nil)
next
  case (Cons d data)
  show ?case
    by (simp add: feed_loop_Cons Cons.IH feed_step_def emit_def replicate_append_same)
qed

lemma set_foldl_set_add: "set (foldl set_add buf ms) = set buf \<union> set ms"
  by (induction ms arbitrary: buf) (auto simp: set_add_def)

lemma distinct_foldl_set_add: "distinct buf \<Longrightarrow> distinct (foldl set_add buf ms)"
  by (induction ms arbitrary: buf) (auto simp: set_add_def)

lemma prefix_foldl_set_add: "\<exists>t. foldl set_add buf ms = buf @ t"
proof (induction ms arbitrary: buf)
  case Nil
  then show ?case by simp
next
  case (Cons m ms)
  obtain t where t: "foldl set_add (set_add buf m) ms = set_add buf m @ t"
    using Cons [of "set_add buf m"] by blast
  obtain u where u: "set_add buf m = buf @ u"
    by (cases "m \<in> set buf") (simp_all add: set_add_def)
  have "foldl set_add buf (m # ms) = buf @ (u @ t)"
    using t u by simp
  then show ?case by blast
qed

text \<open>
  C8. A call of \<open>feed\<close> made before \<open>interval\<close> has elapsed since \<open>last_time\<close> returns
  normally, makes no content-store call, no data base call, no pin attempt and no ledger call,
  leaves \<open>last_time\<close> and the data base as they were, and keeps the buffer's prior contents,
  to which (when the feeder is enabled) the measurements of this call that pass the filter are added.
\<close>

theorem feed_before_interval:
  assumes "clock_feed env - last_time self < interval self"
  shows "case feed env P self w data of
           (r, self', w') \<Rightarrow>
             r = Inr () \<and> last_time self' = last_time self \<and> db w' = db w \<and>
             (\<exists>t. trace w' = trace w @ t \<and>
                  (\<forall>e \<in> set t. \<not> is_store e \<and> \<not> is_db e \<and> \<not> is_pin e \<and> \<not> is_ledger e)) \<and>
             set (buffer self') =
               set (buffer self) \<union>
               (if datalog_enable (config self)
                then {m \<in> measurement ` set data. truthy (public m) \<and> model m \<noteq> P} else {}) \<and>
             (\<exists>b. buffer self' = buffer self @ b)"
proof (cases "datalog_enable (config self)")
  case False
  then show ?thesis by (simp add: feed_def)
next
  case True
  have nd: "\<not> interval self \<le> clock_feed env - last_time self" using assms by simp
  have eq: "feed env P self w data =
     (Inr (), self\<lparr>buffer := fst (feed_loop P (buffer self) (emit (Log INFO ''DatalogFeeder:'') w) data)\<rparr>,
      emit (Log INFO ''Still collecting measurements...'')
        (snd (feed_loop P (buffer self) (emit (Log INFO ''DatalogFeeder:'') w) data)))"
    using True nd by (simp add: feed_def Let_def)
  have s: "set (foldl set_add (buffer self) (filter (keep P) (map measurement data))) =
           set (buffer self) \<union> {m \<in> measurement ` set data. truthy (public m) \<and> model m \<noteq> P}"
    by (auto simp: set_foldl_set_add keep_def)
  show ?thesis
    using True prefix_foldl_set_add [of "buffer self" "filter (keep P) (map measurement data)"]
    by (simp add: eq feed_loop_buffer feed_loop_world emit_def s)
qed

theorem feed_before_interval_witness:
  "clock_feed (ex_env\<lparr>clock_feed := 30\<rparr>) - last_time ex_self < interval ex_self \<and>
   feed (ex_env\<lparr>clock_feed := 30\<rparr>) 1 ex_self ex_world
        [\<lparr>measurement = ex_y7\<rparr>, \<lparr>measurement = ex_y7\<lparr>model := 1\<rparr>\<rparr>] =
     (Inr (), ex_self\<lparr>buffer := [ex_y7]\<rparr>,
      \<lparr>db = [],
       trace = [Log INFO ''DatalogFeeder:'', Log DEBUG ''Adding data to buffer: '',
                Log INFO ''Still collecting measurements...'']\<rparr>)"
  using feed_before_interval [where env = "ex_env\<lparr>clock_feed := 30\<rparr>" and self = ex_self
      and P = 1 and w = ex_world
      and data = "[\<lparr>measurement = ex_y7\<rparr>, \<lparr>measurement = ex_y7\<lparr>model := 1\<rparr>\<rparr>]"]
  by (simp add: ex_env_def ex_self_def ex_world_def ex_cfg_def ex_y7_def DatalogFeeder_init_def
      feed_def feed_loop_def feed_step_def keep_def truthy_def set_add_def emit_def Let_def)

section \<open>\<open>to_datalog\<close>\<close>

lemma new_events_append [simp]: "trace w' = trace w @ t \<Longrightarrow> new_events w w' = t"
  by (simp add: new_events_def)



section \<open>\<open>FrontierFeeder.feed\<close>: one handler per item\<close>

lemma frontier_loop_shape:
  "\<exists>t. frontier_loop env i w ds = (Inr (), w\<lparr>trace := trace w @ t\<rparr>) \<and>
       filter is_datalog_record t =
         concat (map (\<lambda>d. case str_measurement env d of
                              Inl e \<Rightarrow> [] | Inr s \<Rightarrow> [DatalogRecord s]) ds) \<and>
       length (filter is_warning t) =
         length (filter (\<lambda>jd. case str_measurement env (snd jd) of
                                 Inl e \<Rightarrow> True
                               | Inr s \<Rightarrow> isl (datalog_record env (fst jd) s))
                   (enumerate i ds)) \<and>
       length (filter is_log t) = length ds \<and>
       (\<forall>e \<in> set t. is_datalog_record e \<or> is_log e)"
proof (induction ds arbitrary: i w)
  case Nil
  show ?case by (rule exI [of _ "[]"]) simp
next
  case (Cons d ds)
  define hd_events where "hd_events =
    (case str_measurement env d of
       Inl e \<Rightarrow>
         [Log WARNING
           (''Frontier Datalog: Something went wrong during extrinsic submission to Robonomics: '' @ e)]
     | Inr s \<Rightarrow>
         [DatalogRecord s,
          (case datalog_record env i s of
             Inl e \<Rightarrow>
               Log WARNING
                 (''Frontier Datalog: Something went wrong during extrinsic submission to Robonomics: '' @ e)
           | Inr receipt \<Rightarrow>
               Log INFO
                 (''Frontier Datalog: Data sent to Robonomics datalog and included in block '' @ receipt))])"
  let ?w = "w\<lparr>trace := trace w @ hd_events\<rparr>"
  have step: "frontier_loop env i w (d # ds) = frontier_loop env (Suc i) ?w ds"
    by (simp add: hd_events_def emit_def split: sum.splits)
  have rec: "filter is_datalog_record hd_events =
      (case str_measurement env d of Inl e \<Rightarrow> [] | Inr s \<Rightarrow> [DatalogRecord s])"
    by (simp add: hd_events_def split: sum.splits)
  have warn: "length (filter is_warning hd_events) =
      (if (case str_measurement env d of
             Inl e \<Rightarrow> True | Inr s \<Rightarrow> isl (datalog_record env i s)) then 1 else 0)"
    by (simp add: hd_events_def split: sum.splits)
  have logs: "length (filter is_log hd_events) = 1"
    by (simp add: hd_events_def split: sum.splits)
  have kinds: "\<forall>e \<in> set hd_events. is_datalog_record e \<or> is_log e"
    by (simp add: hd_events_def split: sum.splits)
  obtain t where t: "frontier_loop env (Suc i) ?w ds = (Inr (), ?w\<lparr>trace := trace ?w @ t\<rparr>)"
      "filter is_datalog_record t =
         concat (map (\<lambda>d. case str_measurement env d of
                              Inl e \<Rightarrow> [] | Inr s \<Rightarrow> [DatalogRecord s]) ds)"
      "length (filter is_warning t) =
         length (filter (\<lambda>jd. case str_measurement env (snd jd) of
                                 Inl e \<Rightarrow> True
                               | Inr s \<Rightarrow> isl (datalog_record env (fst jd) s))
                   (enumerate (Suc i) ds))"
      "length (filter is_log t) = length ds"
      "\<forall>e \<in> set t. is_datalog_record e \<or> is_log e"
    using Cons [of "Suc i" ?w] by blast
  have "frontier_loop env i w (d # ds) = (Inr (), w\<lparr>trace := trace w @ (hd_events @ t)\<rparr>)"
    using step t(1) by simp
  moreover have "filter is_datalog_record (hd_events @ t) =
         concat (map (\<lambda>d. case str_measurement env d of
                              Inl e \<Rightarrow> [] | Inr s \<Rightarrow> [DatalogRecord s]) (d # ds))"
    using rec t(2) by simp
  moreover have "length (filter is_warning (hd_events @ t)) =
         length (filter (\<lambda>jd. case str_measurement env (snd jd) of
                                 Inl e \<Rightarrow> True
                               | Inr s \<Rightarrow> isl (datalog_record env (fst jd) s))
                   (enumerate i (d # ds)))"
    using warn t(3) by (cases "str_measurement env d") simp_all
  moreover have "length (filter is_log (hd_events @ t)) = length (d # ds)"
    using logs t(4) by simp
  moreover have "\<forall>e \<in> set (hd_events @ t). is_datalog_record e \<or> is_log e"
    using kinds t(5) by auto
  ultimately show ?case by blast
qed

text \<open>
  C10, as amended. When enabled, and once the account and datalog objects are constructed
  (their constructors are outside the handler), \<open>FrontierFeeder.feed\<close> handles the items one
  by one, in order, each in its own handler: it submits one datalog record for every item
  whose text can be built (no batching), logs exactly one message per item, a warning when
  building the text or recording the item failed, goes on with the following items all the
  same, and raises nothing to the caller.
\<close>

theorem frontier_feed_isolated:
  assumes "frontier_enable cfg" and "account_new env = Inr ()"
  shows "case frontier_feed env cfg w data of
           (r, w') \<Rightarrow>
             r = Inr () \<and> db w' = db w \<and>
             filter is_datalog_record (new_events w w') =
               concat (map (\<lambda>d. case str_measurement env d of
                                    Inl e \<Rightarrow> [] | Inr s \<Rightarrow> [DatalogRecord s]) data) \<and>
             length (filter is_warning (new_events w w')) =
               length (filter (\<lambda>jd. case str_measurement env (snd jd) of
                                       Inl e \<Rightarrow> True
                                     | Inr s \<Rightarrow> isl (datalog_record env (fst jd) s))
                         (enumerate 0 data)) \<and>
             length (filter is_log (new_events w w')) = length data"
proof -
  let ?w = "emit (AccountNew (datalog_suri cfg)) w"
  obtain t where t: "frontier_loop env 0 ?w data = (Inr (), ?w\<lparr>trace := trace ?w @ t\<rparr>)"
      "filter is_datalog_record t =
         concat (map (\<lambda>d. case str_measurement env d of
                              Inl e \<Rightarrow> [] | Inr s \<Rightarrow> [DatalogRecord s]) data)"
      "length (filter is_warning t) =
         length (filter (\<lambda>jd. case str_measurement env (snd jd) of
                                 Inl e \<Rightarrow> True
                               | Inr s \<Rightarrow> isl (datalog_record env (fst jd) s))
                   (enumerate 0 data))"
      "length (filter is_log t) = length data"
    using frontier_loop_shape [of env 0 ?w data] by blast
  have tr: "trace (?w\<lparr>trace := trace ?w @ t\<rparr>) = trace w @ (AccountNew (datalog_suri cfg) # t)"
    by (simp add: emit_def)
  show ?thesis
    using assms t by (simp add: frontier_feed_def new_events_append [OF tr]) (simp add: emit_def)
qed

theorem frontier_feed_isolated_witness:
  "frontier_enable ex_cfg \<and> account_new ex_fenv = Inr () \<and>
   frontier_feed ex_fenv ex_cfg ex_world
         [\<lparr>measurement = ex_x100\<rparr>, \<lparr>measurement = ex_x50\<rparr>, \<lparr>measurement = ex_y7\<rparr>,
          \<lparr>measurement = ex_x100b\<rparr>] =
     (Inr (),
      \<lparr>db = [],
       trace =
         [AccountNew ''//Alice'',
          DatalogRecord ''X'',
          Log INFO ''Frontier Datalog: Data sent to Robonomics datalog and included in block 0x1'',
          DatalogRecord ''X'',
          Log WARNING ''Frontier Datalog: Something went wrong during extrinsic submission to Robonomics: boom'',
          Log WARNING ''Frontier Datalog: Something went wrong during extrinsic submission to Robonomics: format error'',
          DatalogRecord ''X'',
          Log INFO ''Frontier Datalog: Data sent to Robonomics datalog and included in block 0x1'']\<rparr>)"
  using frontier_feed_isolated [of ex_cfg ex_fenv ex_world
      "[\<lparr>measurement = ex_x100\<rparr>, \<lparr>measurement = ex_x50\<rparr>, \<lparr>measurement = ex_y7\<rparr>,
        \<lparr>measurement = ex_x100b\<rparr>]"]
  by (simp add: ex_cfg_def ex_fenv_def ex_world_def frontier_feed_def emit_def
      ex_x100_def ex_x50_def ex_y7_def ex_x100b_def)

text \<open>
  C10 as stated fails: in an enabled call whose \<open>Account\<close> constructor raises, the exception
  reaches the caller and no record is submitted for any item; and an item whose text cannot
  be built gets a warning and no record.
\<close>

theorem frontier_feed_constructor_counterexample:
  "frontier_enable ex_cfg \<and>
   frontier_feed (ex_fenv\<lparr>account_new := Inl ''invalid seed''\<rparr>) ex_cfg ex_world
         [\<lparr>measurement = ex_x100\<rparr>, \<lparr>measurement = ex_x50\<rparr>] =
     (Inl ''invalid seed'', \<lparr>db = [], trace = [AccountNew ''//Alice'']\<rparr>) \<and>
   frontier_feed ex_fenv ex_cfg ex_world [\<lparr>measurement = ex_y7\<rparr>] =
     (Inr (),
      \<lparr>db = [],
       trace =
         [AccountNew ''//Alice'',
          Log WARNING ''Frontier Datalog: Something went wrong during extrinsic submission to Robonomics: format error'']\<rparr>)"
  by (simp add: ex_cfg_def ex_fenv_def ex_world_def frontier_feed_def emit_def
      ex_x100_def ex_x50_def ex_y7_def)

section \<open>The flush cycle\<close>

lemma get_multihash_ok:
  assumes "ipfs_add env (snapshot_bytes (set_order env buf)) = Inr h"
  shows "get_multihash env buf w ep =
     (Inr (h, temp_name env),
      w\<lparr>trace := trace w @
           [Log DEBUG ''Payload before sorting: '', Log DEBUG ''Payload sorted: '',
            Log DEBUG (''Created temp file: '' @ temp_name env),
            WriteFile (temp_name env) (snapshot_bytes (set_order env buf)),
            IpfsAdd ep (temp_name env),
            DbAddData ''not sent'' h (clock_add env) (snapshot_bytes (set_order env buf))],
        db := db w @
           [\<lparr>row_status = ''not sent'', row_hash = h, row_time = clock_add env,
             row_payload = snapshot_bytes (set_order env buf)\<rparr>]\<rparr>)"
  using assms by (simp add: get_multihash_def Let_def emit_def db_add_data_def snapshot_bytes_def)

lemma get_multihash_fail:
  assumes "ipfs_add env (snapshot_bytes (set_order env buf)) = Inl e"
  shows "get_multihash env buf w ep =
     (Inl e,
      w\<lparr>trace := trace w @
           [Log DEBUG ''Payload before sorting: '', Log DEBUG ''Payload sorted: '',
            Log DEBUG (''Created temp file: '' @ temp_name env),
            WriteFile (temp_name env) (snapshot_bytes (set_order env buf)),
            IpfsAdd ep (temp_name env)]\<rparr>)"
  using assms by (simp add: get_multihash_def Let_def emit_def snapshot_bytes_def)

lemma pin_to_temporal_shape:
  "\<exists>r t. pin_to_temporal env self f w = (r, w\<lparr>trace := trace w @ t\<rparr>) \<and>
         (\<forall>e \<in> set t. \<not> is_db e \<and> \<not> is_ledger e \<and> \<not> is_store e)"
proof (cases "truthy (datalog_temporal_username (config self)) \<and>
              truthy (datalog_temporal_password (config self))")
  case False
  then have "pin_to_temporal env self f w = (Inr (), w)"
    by (auto simp: pin_to_temporal_def Let_def)
  then show ?thesis by (intro exI [of _ "Inr ()"] exI [of _ "[]"]) simp
next
  case True
  show ?thesis
  proof (cases "temporal_login env")
    case (Inl e)
    then have "pin_to_temporal env self f w =
      (Inl e, w\<lparr>trace := trace w @
         [TemporalLogin (datalog_temporal_username (config self))
            (datalog_temporal_password (config self))]\<rparr>)"
      using True by (simp add: pin_to_temporal_def Let_def emit_def)
    then show ?thesis by force
  next
    case (Inr tok)
    show ?thesis
    proof (cases tok)
      case None
      then have "pin_to_temporal env self f w =
        (Inl ''KeyError: token'', w\<lparr>trace := trace w @
           [TemporalLogin (datalog_temporal_username (config self))
              (datalog_temporal_password (config self))]\<rparr>)"
        using True Inr by (simp add: pin_to_temporal_def Let_def emit_def)
      then show ?thesis by force
    next
      case (Some token)
      show ?thesis
      proof (cases "temporal_add env")
        case (Inl e)
        then have "pin_to_temporal env self f w =
          (Inl e, w\<lparr>trace := trace w @
             [TemporalLogin (datalog_temporal_username (config self))
                (datalog_temporal_password (config self)), TemporalAdd f token]\<rparr>)"
          using True \<open>temporal_login env = Inr tok\<close> Some
          by (simp add: pin_to_temporal_def Let_def emit_def)
        then show ?thesis by force
      next
        case (Inr code)
        then have "pin_to_temporal env self f w =
          (Inr (), w\<lparr>trace := trace w @
             ([TemporalLogin (datalog_temporal_username (config self))
                (datalog_temporal_password (config self)), TemporalAdd f token] @
              (if code = 200 then [Log INFO ''File pinned to Temporal Cloud''] else []))\<rparr>)"
          using True \<open>temporal_login env = Inr tok\<close> Some
          by (simp add: pin_to_temporal_def Let_def emit_def)
        then show ?thesis by force
      qed
    qed
  qed
qed

lemma pin_to_pinata_shape:
  "\<exists>t. pin_to_pinata env f cfg w = (Inr (), w\<lparr>trace := trace w @ t\<rparr>) \<and>
       (\<forall>e \<in> set t. \<not> is_db e \<and> \<not> is_ledger e \<and> \<not> is_store e)"
proof (cases "truthy (datalog_pinata_secret cfg)")
  case False
  then have "pin_to_pinata env f cfg w = (Inr (), w)"
    by (simp add: pin_to_pinata_def)
  then show ?thesis by (intro exI [of _ "[]"]) simp
next
  case True
  show ?thesis
  proof (cases "pinata_pin env")
    case (Inl e)
    then have "pin_to_pinata env f cfg w = (Inr (), w\<lparr>trace := trace w @
        [Log INFO ''Pinning file to Pinata'', PinataPin f,
         Log WARNING (''Failed while pining file to Pinata. Error: '' @ e)]\<rparr>)"
      using True by (simp add: pin_to_pinata_def Let_def emit_def)
    then show ?thesis by force
  next
    case (Inr u)
    show ?thesis
    proof (cases "pinata_list env")
      case (Inl e)
      then have "pin_to_pinata env f cfg w = (Inr (), w\<lparr>trace := trace w @
          [Log INFO ''Pinning file to Pinata'', PinataPin f, PinataList,
           Log WARNING (''Failed while pining file to Pinata. Error: '' @ e)]\<rparr>)"
        using True \<open>pinata_pin env = Inr u\<close> by (simp add: pin_to_pinata_def Let_def emit_def)
      then show ?thesis by force
    next
      case (Inr h)
      then have "pin_to_pinata env f cfg w = (Inr (), w\<lparr>trace := trace w @
          [Log INFO ''Pinning file to Pinata'', PinataPin f, PinataList,
           Log INFO (''File sent to pinata. Hash is '' @ h)]\<rparr>)"
        using True \<open>pinata_pin env = Inr u\<close> by (simp add: pin_to_pinata_def Let_def emit_def)
      then show ?thesis by force
    qed
  qed
qed

lemma to_datalog_shape:
  "\<exists>r t. to_datalog env self h w =
           (r, self\<lparr>last_time := clock_datalog env, buffer := []\<rparr>,
            w\<lparr>trace := trace w @ t,
              db := (if interface_new env = Inr () \<and> \<not> isl (record_datalog env h)
                     then mark_sent h (db w) else db w)\<rparr>)"
proof (cases "interface_new env")
  case (Inl e)
  then have "to_datalog env self h w =
     (Inl e, self\<lparr>last_time := clock_datalog env, buffer := []\<rparr>,
      w\<lparr>trace := trace w @ [Log INFO h, InterfaceNew (datalog_suri (config self))], db := db w\<rparr>)"
    by (simp add: to_datalog_def Let_def emit_def)
  then show ?thesis using Inl by force
next
  case (Inr u)
  show ?thesis
  proof (cases "record_datalog env h")
    case (Inl e)
    then have "to_datalog env self h w =
     (Inr (), self\<lparr>last_time := clock_datalog env, buffer := []\<rparr>,
      w\<lparr>trace := trace w @ [Log INFO h, InterfaceNew (datalog_suri (config self)), RecordDatalog h,
          Log WARNING (''Something went wrong during extrinsic submission to Robonomics: '' @ e)],
        db := db w\<rparr>)"
      using Inr by (simp add: to_datalog_def Let_def emit_def)
    then show ?thesis using Inl by force
  next
    case (Inr receipt)
    then have "to_datalog env self h w =
     (Inr (), self\<lparr>last_time := clock_datalog env, buffer := []\<rparr>,
      w\<lparr>trace := trace w @ [Log INFO h, InterfaceNew (datalog_suri (config self)), RecordDatalog h,
          Log INFO (''Ipfs hash sent to Robonomics Parachain and included in block '' @ receipt),
          DbUpdateStatus ''sent'' h],
        db := mark_sent h (db w)\<rparr>)"
      using \<open>interface_new env = Inr u\<close>
      by (simp add: to_datalog_def Let_def emit_def db_update_status_def mark_sent_def)
    then show ?thesis using Inr \<open>interface_new env = Inr u\<close> by force
  qed
qed

lemma feed_loop_eq:
  "feed_loop P (buffer self) w0 data =
     (buffered P self data,
      w0\<lparr>trace := trace w0 @
         replicate (length (filter (keep P) (map measurement data))) (Log DEBUG ''Adding data to buffer: '')\<rparr>)"
  by (rule prod_eqI) (simp_all add: feed_loop_buffer feed_loop_world buffered_def)

lemma feed_disabled:
  "\<not> datalog_enable (config self) \<Longrightarrow> feed env P self w data = (Inr (), self, w)"
  by (simp add: feed_def)

lemma feed_not_due:
  assumes "datalog_enable (config self)" and "\<not> interval self \<le> clock_feed env - last_time self"
  shows "feed env P self w data =
     (Inr (), self\<lparr>buffer := buffered P self data\<rparr>,
      w\<lparr>trace := trace w @ pre_events P data @ [Log INFO ''Still collecting measurements...'']\<rparr>)"
  using assms by (simp add: feed_def Let_def feed_loop_eq emit_def pre_events_def)

lemma feed_empty:
  assumes "datalog_enable (config self)" and "interval self \<le> clock_feed env - last_time self"
    and "buffered P self data = []"
  shows "feed env P self w data =
     (Inr (), self\<lparr>buffer := buffered P self data\<rparr>,
      w\<lparr>trace := trace w @ pre_events P data @ [Log INFO ''Nothing to publish'']\<rparr>)"
  using assms by (simp add: feed_def Let_def feed_loop_eq emit_def pre_events_def)

lemma feed_flush:
  assumes "datalog_enable (config self)" and "interval self \<le> clock_feed env - last_time self"
    and "buffered P self data \<noteq> []"
  shows "feed env P self w data =
     (case get_multihash env (buffered P self data)
             (w\<lparr>trace := trace w @ pre_events P data @
                 [Log DEBUG ''About to publish collected data...'', Log DEBUG ''Buffer is '']\<rparr>)
             (ipfs_endpoint self) of
        (Inl e, w5) \<Rightarrow> (Inl e, self\<lparr>buffer := buffered P self data\<rparr>, w5)
      | (Inr (ipfs_hash, file_path), w5) \<Rightarrow>
          (case pin_to_temporal env (self\<lparr>buffer := buffered P self data\<rparr>) file_path w5 of
             (Inl e, w6) \<Rightarrow> (Inl e, self\<lparr>buffer := buffered P self data\<rparr>, w6)
           | (Inr u, w6) \<Rightarrow>
               (case pin_to_pinata env file_path (config self) w6 of
                  (Inl e, w7) \<Rightarrow> (Inl e, self\<lparr>buffer := buffered P self data\<rparr>, w7)
                | (Inr u', w7) \<Rightarrow>
                    to_datalog env (self\<lparr>buffer := buffered P self data\<rparr>) ipfs_hash w7)))"
  using assms by (simp add: feed_def Let_def feed_loop_eq emit_def pre_events_def
      cong: prod.case_cong sum.case_cong)

lemma pre_events_quiet:
  "\<forall>e \<in> set (pre_events P data). \<not> is_pin e \<and> \<not> is_ledger e \<and> \<not> is_db e \<and> \<not> is_store e"
  by (simp add: pre_events_def)

lemma publish_events_quiet:
  "\<forall>e \<in> set (publish_events env P self data). \<not> is_pin e \<and> \<not> is_ledger e \<and> \<not> is_db e"
  using pre_events_quiet [of P data] by (simp add: publish_events_def)

lemma feed_flush_fail:
  assumes "datalog_enable (config self)" and "interval self \<le> clock_feed env - last_time self"
    and "buffered P self data \<noteq> []"
    and "ipfs_add env (snapshot_bytes (set_order env (buffered P self data))) = Inl e"
  shows "feed env P self w data =
     (Inl e, self\<lparr>buffer := buffered P self data\<rparr>,
      w\<lparr>trace := trace w @ publish_events env P self data\<rparr>)"
  by (simp add: feed_flush [OF assms(1-3)] get_multihash_fail [OF assms(4)] publish_events_def)


lemma feed_flush_ok:
  assumes "datalog_enable (config self)" and "interval self \<le> clock_feed env - last_time self"
    and "buffered P self data \<noteq> []"
    and "ipfs_add env (snapshot_bytes (set_order env (buffered P self data))) = Inr h"
  shows "\<exists>post.
     trace (snd (snd (feed env P self w data))) =
       trace w @ publish_events env P self data @
       DbAddData ''not sent'' h (clock_add env) (snapshot_bytes (set_order env (buffered P self data)))
         # post \<and>
     (db (snd (snd (feed env P self w data))) =
        db w @ [\<lparr>row_status = ''not sent'', row_hash = h, row_time = clock_add env,
                 row_payload = snapshot_bytes (set_order env (buffered P self data))\<rparr>] \<or>
      db (snd (snd (feed env P self w data))) =
        mark_sent h (db w @ [\<lparr>row_status = ''not sent'', row_hash = h, row_time = clock_add env,
                 row_payload = snapshot_bytes (set_order env (buffered P self data))\<rparr>]))"
proof -
  let ?b = "buffered P self data"
  let ?bytes = "snapshot_bytes (set_order env ?b)"
  let ?row = "\<lparr>row_status = ''not sent'', row_hash = h, row_time = clock_add env, row_payload = ?bytes\<rparr>"
  let ?self1 = "self\<lparr>buffer := ?b\<rparr>"
  let ?w5 = "w\<lparr>trace := trace w @ publish_events env P self data @
                  [DbAddData ''not sent'' h (clock_add env) ?bytes],
               db := db w @ [?row]\<rparr>"
  have f: "feed env P self w data =
     (case pin_to_temporal env ?self1 (temp_name env) ?w5 of
        (Inl e, w6) \<Rightarrow> (Inl e, ?self1, w6)
      | (Inr u, w6) \<Rightarrow>
          (case pin_to_pinata env (temp_name env) (config self) w6 of
             (Inl e, w7) \<Rightarrow> (Inl e, ?self1, w7)
           | (Inr u', w7) \<Rightarrow> to_datalog env ?self1 h w7))"
    by (simp add: feed_flush [OF assms(1-3)] get_multihash_ok [OF assms(4)] publish_events_def)
  obtain r6 t6 where p6: "pin_to_temporal env ?self1 (temp_name env) ?w5 = (r6, ?w5\<lparr>trace := trace ?w5 @ t6\<rparr>)"
    using pin_to_temporal_shape [of env ?self1 "temp_name env" ?w5] by blast
  show ?thesis
  proof (cases r6)
    case (Inl e)
    then have "feed env P self w data = (Inl e, ?self1, ?w5\<lparr>trace := trace ?w5 @ t6\<rparr>)"
      by (simp add: f p6)
    then show ?thesis by simp
  next
    case (Inr u)
    let ?w6 = "?w5\<lparr>trace := trace ?w5 @ t6\<rparr>"
    obtain t7 where p7: "pin_to_pinata env (temp_name env) (config self) ?w6 = (Inr (), ?w6\<lparr>trace := trace ?w6 @ t7\<rparr>)"
      using pin_to_pinata_shape [of env "temp_name env" "config self" ?w6] by blast
    let ?w7 = "?w6\<lparr>trace := trace ?w6 @ t7\<rparr>"
    obtain r8 t8 where p8: "to_datalog env ?self1 h ?w7 =
           (r8, ?self1\<lparr>last_time := clock_datalog env, buffer := []\<rparr>,
            ?w7\<lparr>trace := trace ?w7 @ t8,
              db := (if interface_new env = Inr () \<and> \<not> isl (record_datalog env h)
                     then mark_sent h (db ?w7) else db ?w7)\<rparr>)"
      using to_datalog_shape [of env ?self1 h ?w7] by blast
    have "feed env P self w data =
           (r8, ?self1\<lparr>last_time := clock_datalog env, buffer := []\<rparr>,
            ?w7\<lparr>trace := trace ?w7 @ t8,
              db := (if interface_new env = Inr () \<and> \<not> isl (record_datalog env h)
                     then mark_sent h (db ?w7) else db ?w7)\<rparr>)"
      using Inr by (simp only: f p6 p7 p8 prod.case sum.case)
    then show ?thesis by simp
  qed
qed

lemma record_first_quiet:
  "\<forall>e \<in> set xs. \<not> is_pin e \<and> \<not> is_ledger e \<and> \<not> is_db e \<Longrightarrow> record_first (xs @ ys) = record_first ys"
proof (induction xs)
  case Nil
  then show ?case by simp
next
  case (Cons x xs)
  have "\<not> is_db_add x" using Cons.prems by (cases x) simp_all
  then show ?case using Cons by simp
qed

text \<open>
  C2. In every execution of \<open>feed\<close> no pin attempt and no ledger call comes before the
  data base insert of that call. In a flush cycle whose content-store add succeeds with
  identifier \<open>h\<close>, the row (\<open>not sent\<close>, \<open>h\<close>, the current time, the serialized payload) is
  inserted right after the add, before every pin attempt and ledger call, and it is the last
  row of the data base afterwards (with status \<open>sent\<close> once the ledger call succeeded).
\<close>

theorem record_written_before_pins:
  "record_first (new_events w (snd (snd (feed env P self w data)))) \<and>
   (\<forall>h. datalog_enable (config self) \<and> interval self \<le> clock_feed env - last_time self \<and>
        buffered P self data \<noteq> [] \<and>
        ipfs_add env (snapshot_bytes (set_order env (buffered P self data))) = Inr h \<longrightarrow>
      (\<exists>pre post.
         new_events w (snd (snd (feed env P self w data))) =
           pre @ DbAddData ''not sent'' h (clock_add env)
                   (snapshot_bytes (set_order env (buffered P self data))) # post \<and>
         (\<forall>e \<in> set pre. \<not> is_pin e \<and> \<not> is_ledger e \<and> \<not> is_db e) \<and>
         (db (snd (snd (feed env P self w data))) =
            db w @ [\<lparr>row_status = ''not sent'', row_hash = h, row_time = clock_add env,
                     row_payload = snapshot_bytes (set_order env (buffered P self data))\<rparr>] \<or>
          db (snd (snd (feed env P self w data))) =
            mark_sent h (db w @ [\<lparr>row_status = ''not sent'', row_hash = h, row_time = clock_add env,
                     row_payload = snapshot_bytes (set_order env (buffered P self data))\<rparr>]))))"
proof (intro conjI allI impI)
  fix h
  assume a: "datalog_enable (config self) \<and> interval self \<le> clock_feed env - last_time self \<and>
        buffered P self data \<noteq> [] \<and>
        ipfs_add env (snapshot_bytes (set_order env (buffered P self data))) = Inr h"
  let ?bytes = "snapshot_bytes (set_order env (buffered P self data))"
  let ?row = "\<lparr>row_status = ''not sent'', row_hash = h, row_time = clock_add env, row_payload = ?bytes\<rparr>"
  from a obtain post where post:
    "trace (snd (snd (feed env P self w data))) =
       trace w @ (publish_events env P self data @
       DbAddData ''not sent'' h (clock_add env) ?bytes # post)"
    "db (snd (snd (feed env P self w data))) = db w @ [?row] \<or>
     db (snd (snd (feed env P self w data))) = mark_sent h (db w @ [?row])"
    using feed_flush_ok [of self env P data h w] by auto
  show "\<exists>pre post.
         new_events w (snd (snd (feed env P self w data))) =
           pre @ DbAddData ''not sent'' h (clock_add env) ?bytes # post \<and>
         (\<forall>e \<in> set pre. \<not> is_pin e \<and> \<not> is_ledger e \<and> \<not> is_db e) \<and>
         (db (snd (snd (feed env P self w data))) = db w @ [?row] \<or>
          db (snd (snd (feed env P self w data))) = mark_sent h (db w @ [?row]))"
    using new_events_append [OF post(1)] post(2) publish_events_quiet [of env P self data]
    by blast
next
  show "record_first (new_events w (snd (snd (feed env P self w data))))"
  proof (cases "datalog_enable (config self)")
    case False
    then show ?thesis by (simp add: feed_disabled new_events_def)
  next
    case en: True
    show ?thesis
    proof (cases "interval self \<le> clock_feed env - last_time self")
      case False
      have tr: "trace (snd (snd (feed env P self w data))) =
          trace w @ (pre_events P data @ [Log INFO ''Still collecting measurements...'']) @ []"
        by (simp add: feed_not_due [OF en False])
      have q: "\<forall>e \<in> set (pre_events P data @ [Log INFO ''Still collecting measurements...'']).
                 \<not> is_pin e \<and> \<not> is_ledger e \<and> \<not> is_db e"
        using pre_events_quiet [of P data] by simp
      show ?thesis
        using record_first_quiet [OF q, of "[]"] by (simp add: new_events_append [OF tr])
    next
      case due: True
      show ?thesis
      proof (cases "buffered P self data = []")
        case True
        have tr: "trace (snd (snd (feed env P self w data))) =
            trace w @ (pre_events P data @ [Log INFO ''Nothing to publish'']) @ []"
          by (simp add: feed_empty [OF en due True])
        have q: "\<forall>e \<in> set (pre_events P data @ [Log INFO ''Nothing to publish'']).
                   \<not> is_pin e \<and> \<not> is_ledger e \<and> \<not> is_db e"
          using pre_events_quiet [of P data] by simp
        show ?thesis
          using record_first_quiet [OF q, of "[]"] by (simp add: new_events_append [OF tr])
      next
        case ne: False
        show ?thesis
        proof (cases "ipfs_add env (snapshot_bytes (set_order env (buffered P self data)))")
          case (Inl e)
          have tr: "trace (snd (snd (feed env P self w data))) =
              trace w @ publish_events env P self data @ []"
            by (simp add: feed_flush_fail [OF en due ne Inl])
          show ?thesis
            using record_first_quiet [OF publish_events_quiet [of env P self data], of "[]"]
            by (simp add: new_events_append [OF tr])
        next
          case (Inr h)
          obtain post where post:
            "trace (snd (snd (feed env P self w data))) =
               trace w @ (publish_events env P self data @
               DbAddData ''not sent'' h (clock_add env)
                 (snapshot_bytes (set_order env (buffered P self data))) # post)"
            using feed_flush_ok [OF en due ne Inr, of w] by auto
          show ?thesis
            using record_first_quiet [OF publish_events_quiet [of env P self data]]
            by (simp add: new_events_append [OF post])
        qed
      qed
    qed
  qed
qed

section \<open>Sample runs\<close>

lemmas ex_defs =
  ex_env_def ex_cfg_def ex_world_def ex_self_def DatalogFeeder_init_def db_create_table_def

lemmas run_defs =
  feed_def Let_def feed_loop_def feed_step_def keep_def truthy_def set_add_def emit_def
  pin_to_temporal_def pin_to_pinata_def to_datalog_def db_update_status_def

lemma ex_feed_ok:
  "feed ex_env 1 ex_self ex_world [\<lparr>measurement = ex_y7\<rparr>] =
     (Inr (), ex_self\<lparr>last_time := 1002, buffer := []\<rparr>,
      \<lparr>db = [\<lparr>row_status = ''sent'', row_hash = ''QmHash'', row_time = 1001,
               row_payload = snapshot_bytes [ex_y7]\<rparr>],
       trace =
         [Log INFO ''DatalogFeeder:'', Log DEBUG ''Adding data to buffer: '',
          Log DEBUG ''About to publish collected data...'', Log DEBUG ''Buffer is '',
          Log DEBUG ''Payload before sorting: '', Log DEBUG ''Payload sorted: '',
          Log DEBUG ''Created temp file: /tmp/tmpfile'',
          WriteFile ''/tmp/tmpfile'' (snapshot_bytes [ex_y7]),
          IpfsAdd ''/ip4/127.0.0.1/tcp/5001/http'' ''/tmp/tmpfile'',
          DbAddData ''not sent'' ''QmHash'' 1001 (snapshot_bytes [ex_y7]),
          TemporalLogin ''user'' ''pw'', TemporalAdd ''/tmp/tmpfile'' ''tok'',
          Log INFO ''File pinned to Temporal Cloud'',
          Log INFO ''Pinning file to Pinata'', PinataPin ''/tmp/tmpfile'', PinataList,
          Log INFO ''File sent to pinata. Hash is QmHash'',
          Log INFO ''QmHash'', InterfaceNew ''//Alice'', RecordDatalog ''QmHash'',
          Log INFO ''Ipfs hash sent to Robonomics Parachain and included in block 0xabc'',
          DbUpdateStatus ''sent'' ''QmHash'']\<rparr>)"
  by (simp add: ex_defs run_defs get_multihash_ok [where h = "''QmHash''"] ex_y7_def)

lemma ex_feed_temporal_fails:
  "feed (ex_env\<lparr>temporal_login := Inl ''ConnectionError''\<rparr>) 1 ex_self ex_world
        [\<lparr>measurement = ex_y7\<rparr>] =
     (Inl ''ConnectionError'', ex_self\<lparr>buffer := [ex_y7]\<rparr>,
      \<lparr>db = [\<lparr>row_status = ''not sent'', row_hash = ''QmHash'', row_time = 1001,
               row_payload = snapshot_bytes [ex_y7]\<rparr>],
       trace =
         [Log INFO ''DatalogFeeder:'', Log DEBUG ''Adding data to buffer: '',
          Log DEBUG ''About to publish collected data...'', Log DEBUG ''Buffer is '',
          Log DEBUG ''Payload before sorting: '', Log DEBUG ''Payload sorted: '',
          Log DEBUG ''Created temp file: /tmp/tmpfile'',
          WriteFile ''/tmp/tmpfile'' (snapshot_bytes [ex_y7]),
          IpfsAdd ''/ip4/127.0.0.1/tcp/5001/http'' ''/tmp/tmpfile'',
          DbAddData ''not sent'' ''QmHash'' 1001 (snapshot_bytes [ex_y7]),
          TemporalLogin ''user'' ''pw'']\<rparr>)"
  by (simp add: ex_defs run_defs get_multihash_ok [where h = "''QmHash''"] ex_y7_def)

lemma ex_feed_pinata_fails:
  "feed (ex_env\<lparr>pinata_pin := Inl ''ConnectionError''\<rparr>) 1 ex_self ex_world
        [\<lparr>measurement = ex_y7\<rparr>] =
     (Inr (), ex_self\<lparr>last_time := 1002, buffer := []\<rparr>,
      \<lparr>db = [\<lparr>row_status = ''sent'', row_hash = ''QmHash'', row_time = 1001,
               row_payload = snapshot_bytes [ex_y7]\<rparr>],
       trace =
         [Log INFO ''DatalogFeeder:'', Log DEBUG ''Adding data to buffer: '',
          Log DEBUG ''About to publish collected data...'', Log DEBUG ''Buffer is '',
          Log DEBUG ''Payload before sorting: '', Log DEBUG ''Payload sorted: '',
          Log DEBUG ''Created temp file: /tmp/tmpfile'',
          WriteFile ''/tmp/tmpfile'' (snapshot_bytes [ex_y7]),
          IpfsAdd ''/ip4/127.0.0.1/tcp/5001/http'' ''/tmp/tmpfile'',
          DbAddData ''not sent'' ''QmHash'' 1001 (snapshot_bytes [ex_y7]),
          TemporalLogin ''user'' ''pw'', TemporalAdd ''/tmp/tmpfile'' ''tok'',
          Log INFO ''File pinned to Temporal Cloud'',
          Log INFO ''Pinning file to Pinata'', PinataPin ''/tmp/tmpfile'',
          Log WARNING ''Failed while pining file to Pinata. Error: ConnectionError'',
          Log INFO ''QmHash'', InterfaceNew ''//Alice'', RecordDatalog ''QmHash'',
          Log INFO ''Ipfs hash sent to Robonomics Parachain and included in block 0xabc'',
          DbUpdateStatus ''sent'' ''QmHash'']\<rparr>)"
  by (simp add: ex_defs run_defs get_multihash_ok [where h = "''QmHash''"] ex_y7_def)


section \<open>Canonical bytes\<close>

lemma alist_eqI:
  "distinct (map fst xs) \<Longrightarrow> map fst xs = map fst ys \<Longrightarrow> map_of xs = map_of ys \<Longrightarrow> xs = ys"
proof (induction xs arbitrary: ys)
  case Nil
  then show ?case by simp
next
  case (Cons x xs)
  then obtain y ys' where ys: "ys = y # ys'" by (cases ys) auto
  have k: "fst x = fst y" and ks: "map fst xs = map fst ys'"
    using Cons.prems(2) ys by auto
  have eq: "map_of (x # xs) j = map_of (y # ys') j" for j
    using Cons.prems(3) unfolding ys by (rule fun_cong)
  have v: "snd x = snd y" using eq [of "fst x"] k by simp
  have xy: "x = y" using k v by (simp add: prod_eq_iff)
  have "map_of xs = map_of ys'"
  proof
    fix j
    show "map_of xs j = map_of ys' j"
    proof (cases "j = fst x")
      case True
      have "fst x \<notin> fst ` set xs" using Cons.prems(1) by simp
      then have a: "map_of xs (fst x) = None" by (simp add: map_of_eq_None_iff)
      have "fst x \<notin> set (map fst ys')" using Cons.prems(1) ks by simp
      then have "fst x \<notin> fst ` set ys'" by simp
      then have b: "map_of ys' (fst x) = None" by (simp add: map_of_eq_None_iff)
      show ?thesis using True a b by simp
    next
      case False
      show ?thesis using eq [of j] False k by simp
    qed
  qed
  then have "xs = ys'" using Cons.IH [of ys'] Cons.prems(1) ks by simp
  then show ?case using xy ys by simp
qed

lemma group_of_perm:
  assumes "distinct xs" and "distinct ys" and "set xs = set ys"
    and same: "\<forall>m \<in> set xs. \<forall>m' \<in> set xs. public m = public m' \<longrightarrow> model m = model m' \<and> geo_of m = geo_of m'"
    and ts: "\<forall>m \<in> set xs. \<forall>m' \<in> set xs. public m = public m' \<and> timestamp m = timestamp m' \<longrightarrow> m = m'"
  shows "map_option sort_group (group_of k xs) = map_option sort_group (group_of k ys)"
proof -
  let ?fx = "filter (\<lambda>m. public m = k) xs" and ?fy = "filter (\<lambda>m. public m = k) ys"
  have sets: "set ?fx = set ?fy" using assms(3) by auto
  have "distinct ?fx" and "distinct ?fy" using assms(1,2) by simp_all
  then have ms: "mset ?fx = mset ?fy"
    using sets set_eq_iff_mset_eq_distinct [of ?fx ?fy] by blast
  have inj: "inj_on r_timestamp (set (map measurement_check ?fx))"
  proof (rule inj_onI)
    fix a b
    assume a: "a \<in> set (map measurement_check ?fx)" and b: "b \<in> set (map measurement_check ?fx)"
      and e: "r_timestamp a = r_timestamp b"
    from a obtain m where m: "m \<in> set xs" "public m = k" "a = measurement_check m" by auto
    from b obtain m' where m': "m' \<in> set xs" "public m' = k" "b = measurement_check m'" by auto
    have "timestamp m = timestamp m'" using e m(3) m'(3) by (simp add: measurement_check_def)
    moreover have "public m = public m' \<and> timestamp m = timestamp m' \<longrightarrow> m = m'"
      using bspec [OF bspec [OF ts m(1)] m'(1)] .
    ultimately have "m = m'" using m(2) m'(2) by simp
    then show "a = b" using m(3) m'(3) by simp
  qed
  have srt: "sort_key r_timestamp (map measurement_check ?fx) =
             sort_key r_timestamp (map measurement_check ?fy)"
  proof (rule sort_key_inj_key_eq [OF _ inj])
    show "mset (map measurement_check ?fx) = mset (sort_key r_timestamp (map measurement_check ?fy))"
      using ms by (simp only: mset_map mset_sort)
    show "sorted (map r_timestamp (sort_key r_timestamp (map measurement_check ?fy)))"
      by simp
  qed
  show ?thesis
  proof (cases ?fx)
    case Nil
    then have "set ?fy = {}" using sets by simp
    then have "?fy = []" by (simp only: set_empty)
    then show ?thesis using Nil by (simp add: group_of_def)
  next
    case (Cons m0 ms0)
    have m0f: "m0 \<in> set ?fx" by (simp only: Cons list.set_intros)
    then have "set ?fy \<noteq> {}" using sets by auto
    then have "?fy \<noteq> []" by (simp only: set_empty not_False_eq_True)
    then obtain n0 ns0 where fy: "?fy = n0 # ns0" by (cases ?fy) auto
    have m0: "m0 \<in> set xs" "public m0 = k"
      using m0f by auto
    have "n0 \<in> set ?fy" using fy by simp
    then have n0: "n0 \<in> set xs" "public n0 = k" using assms(3) by auto
    have "public m0 = public n0 \<longrightarrow> model m0 = model n0 \<and> geo_of m0 = geo_of n0"
      using bspec [OF bspec [OF same m0(1)] n0(1)] .
    then have eq: "model m0 = model n0 \<and> geo_of m0 = geo_of n0"
      using m0(2) n0(2) by simp
    show ?thesis
      using srt eq by (simp add: group_of_def Cons fy sort_group_def)
  qed
qed

text \<open>
  C3, as amended. Two iteration sequences of the same set of measurements give identical
  snapshot bytes when they meet the station keys in the same order and, within every station,
  all measurements have the same model and position and pairwise different timestamps.
  (The code sorts the measurements of a group by timestamp; it does not sort the station
  keys, takes model and position from the first measurement met, and leaves equal timestamps
  in iteration order.)
\<close>

theorem snapshot_bytes_canonical:
  assumes "distinct xs" and "distinct ys" and "set xs = set ys"
    and "map fst (build_payload xs) = map fst (build_payload ys)"
    and "\<forall>m \<in> set xs. \<forall>m' \<in> set xs. public m = public m' \<longrightarrow> model m = model m' \<and> geo_of m = geo_of m'"
    and "\<forall>m \<in> set xs. \<forall>m' \<in> set xs. public m = public m' \<and> timestamp m = timestamp m' \<longrightarrow> m = m'"
  shows "snapshot_bytes xs = snapshot_bytes ys"
proof -
  have "sort_payload (build_payload xs) = sort_payload (build_payload ys)"
  proof (rule alist_eqI)
    show "distinct (map fst (sort_payload (build_payload xs)))"
      by (simp add: keys_sort_payload_build distinct_build_payload)
    show "map fst (sort_payload (build_payload xs)) = map fst (sort_payload (build_payload ys))"
      using assms(4) by (simp add: keys_sort_payload_build)
    show "map_of (sort_payload (build_payload xs)) = map_of (sort_payload (build_payload ys))"
    proof
      fix k
      show "map_of (sort_payload (build_payload xs)) k = map_of (sort_payload (build_payload ys)) k"
        using group_of_perm [OF assms(1,2,3,5,6), of k] by (simp add: map_of_sort_payload_build)
    qed
  qed
  then show ?thesis by (simp add: snapshot_bytes_def)
qed

lemma cx1: "snapshot_bytes [ex_x100, ex_y7] \<noteq> snapshot_bytes [ex_y7, ex_x100]"
  by code_simp

lemma cx2: "snapshot_bytes [ex_x100, ex_x50] \<noteq> snapshot_bytes [ex_x50, ex_x100]"
  by code_simp

lemma cx3: "snapshot_bytes [ex_x100, ex_x100b] \<noteq> snapshot_bytes [ex_x100b, ex_x100]"
  by code_simp

lemma cx4: "distinct [ex_x100, ex_y7] \<and> distinct [ex_x100, ex_x50] \<and> distinct [ex_x100, ex_x100b]"
  by (simp add: ex_x100_def ex_y7_def ex_x50_def ex_x100b_def)

lemmas ex_meas_defs = ex_x100_def ex_x50_def ex_y7_def ex_x100b_def ex_x50s_def

text \<open>
  C3 as stated fails: the same set iterated in another order gives other bytes, when two
  stations swap, when two measurements of a station differ in model or position, and when two
  measurements of a station have the same timestamp.
\<close>

theorem snapshot_bytes_order_counterexample:
  "distinct [ex_x100, ex_y7] \<and> distinct [ex_y7, ex_x100] \<and>
   set [ex_x100, ex_y7] = set [ex_y7, ex_x100] \<and>
   snapshot_bytes [ex_x100, ex_y7] \<noteq> snapshot_bytes [ex_y7, ex_x100] \<and>
   distinct [ex_x100, ex_x50] \<and> distinct [ex_x50, ex_x100] \<and>
   set [ex_x100, ex_x50] = set [ex_x50, ex_x100] \<and>
   snapshot_bytes [ex_x100, ex_x50] \<noteq> snapshot_bytes [ex_x50, ex_x100] \<and>
   distinct [ex_x100, ex_x100b] \<and> distinct [ex_x100b, ex_x100] \<and>
   set [ex_x100, ex_x100b] = set [ex_x100b, ex_x100] \<and>
   snapshot_bytes [ex_x100, ex_x100b] \<noteq> snapshot_bytes [ex_x100b, ex_x100]"
proof -
  have d: "ex_x100 \<noteq> ex_y7" "ex_x100 \<noteq> ex_x50" "ex_x100 \<noteq> ex_x100b"
    by (simp_all add: ex_meas_defs)
  show ?thesis
    using d cx1 cx2 cx3 by (auto simp: insert_commute)
qed

theorem snapshot_bytes_canonical_witness:
  "distinct [ex_x100, ex_y7, ex_x50s] \<and> distinct [ex_x50s, ex_x100, ex_y7] \<and>
   set [ex_x100, ex_y7, ex_x50s] = set [ex_x50s, ex_x100, ex_y7] \<and>
   map fst (build_payload [ex_x100, ex_y7, ex_x50s]) = map fst (build_payload [ex_x50s, ex_x100, ex_y7]) \<and>
   [ex_x100, ex_y7, ex_x50s] \<noteq> [ex_x50s, ex_x100, ex_y7] \<and>
   snapshot_bytes [ex_x100, ex_y7, ex_x50s] = snapshot_bytes [ex_x50s, ex_x100, ex_y7]"
proof -
  have h1: "distinct [ex_x100, ex_y7, ex_x50s]" and h2: "distinct [ex_x50s, ex_x100, ex_y7]"
    by (simp_all add: ex_meas_defs)
  have h3: "set [ex_x100, ex_y7, ex_x50s] = set [ex_x50s, ex_x100, ex_y7]"
    by auto
  have h4: "map fst (build_payload [ex_x100, ex_y7, ex_x50s]) =
            map fst (build_payload [ex_x50s, ex_x100, ex_y7])"
    by code_simp
  have h5: "\<forall>m \<in> set [ex_x100, ex_y7, ex_x50s]. \<forall>m' \<in> set [ex_x100, ex_y7, ex_x50s].
              public m = public m' \<longrightarrow> model m = model m' \<and> geo_of m = geo_of m'"
    by (simp add: ex_meas_defs geo_of_def)
  have h6: "\<forall>m \<in> set [ex_x100, ex_y7, ex_x50s]. \<forall>m' \<in> set [ex_x100, ex_y7, ex_x50s].
              public m = public m' \<and> timestamp m = timestamp m' \<longrightarrow> m = m'"
    by (simp add: ex_meas_defs)
  have ne: "[ex_x100, ex_y7, ex_x50s] \<noteq> [ex_x50s, ex_x100, ex_y7]"
    by (simp add: ex_meas_defs)
  show ?thesis
    using snapshot_bytes_canonical [OF h1 h2 h3 h4 h5 h6] h1 h2 h3 h4 ne by simp
qed







section \<open>Evaluations at the sample inputs\<close>

text \<open>
  C1, the code at a failing input. The claim is that a failure of a pin target is caught in
  that target's pin attempt and never aborts the other target or the ledger record. With
  Temporal credentials configured, an exception of the Temporal login request (or a login
  answer without a token) is raised out of \<open>feed\<close>: the Pinata attempt and \<open>to_datalog\<close>
  do not run, the row stays \<open>not sent\<close> and the buffer is not cleared. A failure of the Pinata
  target is caught, as the claim says.
\<close>

theorem feed_temporal_failure_propagates:
  "feed (ex_env\<lparr>temporal_login := Inl ''ConnectionError''\<rparr>) 1 ex_self ex_world
        [\<lparr>measurement = ex_y7\<rparr>] =
     (Inl ''ConnectionError'', ex_self\<lparr>buffer := [ex_y7]\<rparr>,
      \<lparr>db = [\<lparr>row_status = ''not sent'', row_hash = ''QmHash'', row_time = 1001,
               row_payload = snapshot_bytes [ex_y7]\<rparr>],
       trace =
         [Log INFO ''DatalogFeeder:'', Log DEBUG ''Adding data to buffer: '',
          Log DEBUG ''About to publish collected data...'', Log DEBUG ''Buffer is '',
          Log DEBUG ''Payload before sorting: '', Log DEBUG ''Payload sorted: '',
          Log DEBUG ''Created temp file: /tmp/tmpfile'',
          WriteFile ''/tmp/tmpfile'' (snapshot_bytes [ex_y7]),
          IpfsAdd ''/ip4/127.0.0.1/tcp/5001/http'' ''/tmp/tmpfile'',
          DbAddData ''not sent'' ''QmHash'' 1001 (snapshot_bytes [ex_y7]),
          TemporalLogin ''user'' ''pw'']\<rparr>) \<and>
   fst (feed (ex_env\<lparr>temporal_login := Inr None\<rparr>) 1 ex_self ex_world
        [\<lparr>measurement = ex_y7\<rparr>]) = Inl ''KeyError: token'' \<and>
   fst (feed (ex_env\<lparr>pinata_pin := Inl ''ConnectionError''\<rparr>) 1 ex_self ex_world
        [\<lparr>measurement = ex_y7\<rparr>]) = Inr ()"
  by (simp add: ex_feed_temporal_fails ex_feed_pinata_fails)
    (simp add: ex_defs run_defs get_multihash_ok [where h = "''QmHash''"] ex_y7_def)

theorem record_written_before_pins_witness:
  "datalog_enable (config ex_self) \<and>
   interval ex_self \<le> clock_feed ex_env - last_time ex_self \<and>
   buffered 1 ex_self [\<lparr>measurement = ex_y7\<rparr>] \<noteq> [] \<and>
   ipfs_add ex_env (snapshot_bytes (set_order ex_env (buffered 1 ex_self [\<lparr>measurement = ex_y7\<rparr>]))) =
     Inr ''QmHash'' \<and>
   record_first (new_events ex_world (snd (snd (feed ex_env 1 ex_self ex_world [\<lparr>measurement = ex_y7\<rparr>])))) \<and>
   take 11 (new_events ex_world (snd (snd (feed ex_env 1 ex_self ex_world [\<lparr>measurement = ex_y7\<rparr>])))) =
     [Log INFO ''DatalogFeeder:'', Log DEBUG ''Adding data to buffer: '',
      Log DEBUG ''About to publish collected data...'', Log DEBUG ''Buffer is '',
      Log DEBUG ''Payload before sorting: '', Log DEBUG ''Payload sorted: '',
      Log DEBUG ''Created temp file: /tmp/tmpfile'',
      WriteFile ''/tmp/tmpfile'' (snapshot_bytes [ex_y7]),
      IpfsAdd ''/ip4/127.0.0.1/tcp/5001/http'' ''/tmp/tmpfile'',
      DbAddData ''not sent'' ''QmHash'' 1001 (snapshot_bytes [ex_y7]),
      TemporalLogin ''user'' ''pw'']"
  using record_written_before_pins [where env = ex_env and P = 1 and self = ex_self
      and w = ex_world and data = "[\<lparr>measurement = ex_y7\<rparr>]"]
  by (simp add: ex_feed_ok new_events_def)
    (simp add: ex_defs buffered_def keep_def truthy_def set_add_def ex_y7_def)




end
